theory Spec2Isabelle
  imports Complex_Main "HOL-Library.AList"
begin

section \<open>The Scene Lifecycle Manager (class FoundationScene)\<close>

subsection \<open>Data model\<close>

text \<open>
  A scene-graph node (\<^verbatim>\<open>THREE.Object3D\<close>) is a reference together with the \<^verbatim>\<open>uuid\<close>
  the library gave it at construction. Two nodes are the same object exactly when they
  are equal as values. The scene root itself is not a value of this type.
\<close>

record object3d =
  ref :: nat
  uuid :: string

text \<open>
  An animation callback \<^verbatim>\<open>(deltaTime:number)=>void\<close> acts on what it closes over: the
  caller's objects, the type \<open>'w\<close>. Callbacks are taken not to call back into the
  manager. A JavaScript number that is only stored or passed on is a \<open>real\<close>.
\<close>

type_synonym 'w animation_fn = "real \<Rightarrow> 'w \<Rightarrow> 'w"

text \<open>
  The fields of the class, followed by the part of the host the methods act on:
  the children of \<^verbatim>\<open>this.scene\<close>, the frame requests pending in the browser and the
  handle the next \<^verbatim>\<open>requestAnimationFrame\<close> returns, the caller's objects, the number of
  \<^verbatim>\<open>renderer.render\<close> calls, whether the renderer was disposed, whether its canvas is in
  the document, whether the resize listener is on \<^verbatim>\<open>window\<close>, and the console.
  A JavaScript \<^verbatim>\<open>Map\<close> keeps insertion order: it is an association list, \<^verbatim>\<open>set\<close> is
  \<^const>\<open>AList.update\<close> (replace in place, else append) and \<^verbatim>\<open>delete\<close> is
  \<^const>\<open>AList.delete\<close>.
\<close>

record 'w foundation_scene =
  animationId :: "nat option"
  animatedObjects :: "(string \<times> 'w animation_fn) list"
  isInitialized :: bool
  isDisposed :: bool
  managedObjects :: "(string \<times> object3d) list"
  resizeHandler :: bool
  scene_children :: "object3d list"
  frame_requests :: "nat list"
  next_handle :: nat
  world :: 'w
  render_count :: nat
  renderer_disposed :: bool
  canvas_mounted :: bool
  resize_listening :: bool
  console :: "string list"

subsection \<open>The scene graph of the rendering library\<close>

text \<open>
  \<^verbatim>\<open>Object3D.remove\<close> of three.js looks the child up with \<^verbatim>\<open>indexOf\<close> and splices it
  out; \<^verbatim>\<open>Object3D.add\<close> first takes the node away from its present parent and then
  pushes it at the end of the children.
\<close>

definition scene_remove :: "object3d \<Rightarrow> object3d list \<Rightarrow> object3d list" where
  "scene_remove object cs = remove1 object cs"

definition scene_add :: "object3d \<Rightarrow> object3d list \<Rightarrow> object3d list" where
  "scene_add object cs = remove1 object cs @ [object]"

subsection \<open>Construction\<close>

definition setupResizeHandler :: "'w foundation_scene \<Rightarrow> 'w foundation_scene" where
  "setupResizeHandler s = s\<lparr>resizeHandler := True, resize_listening := True\<rparr>"

definition initialize :: "bool \<Rightarrow> 'w foundation_scene \<Rightarrow> 'w foundation_scene" where
  "initialize autoResize s =
     (if isInitialized s then s
      else
        let s1 = s\<lparr>canvas_mounted := True\<rparr>;
            s2 = (if autoResize then setupResizeHandler s1 else s1)
        in s2\<lparr>isInitialized := True,
               console := console s2 @ [''FoundationScene has been initialized'']\<rparr>)"

text \<open>
  The constructor: the field initialisers, then \<^verbatim>\<open>initialize()\<close>. The arguments are
  the merged configuration's \<^verbatim>\<open>autoResize\<close> and the caller's objects at that moment.
\<close>

definition new_FoundationScene :: "bool \<Rightarrow> 'w \<Rightarrow> 'w foundation_scene" where
  "new_FoundationScene autoResize w =
     initialize autoResize
       \<lparr>animationId = None, animatedObjects = [], isInitialized = False,
        isDisposed = False, managedObjects = [], resizeHandler = False,
        scene_children = [], frame_requests = [], next_handle = 1, world = w,
        render_count = 0, renderer_disposed = False, canvas_mounted = False,
        resize_listening = False, console = []\<rparr>"

subsection \<open>Object registry\<close>

text \<open>
  \<^verbatim>\<open>id || object.uuid\<close>: an omitted identifier and the empty string are both falsy.
\<close>

definition resolve_id :: "string option \<Rightarrow> object3d \<Rightarrow> string" where
  "resolve_id ident object =
     (case ident of
        None \<Rightarrow> uuid object
      | Some i \<Rightarrow> if i = [] then uuid object else i)"

definition addObject ::
  "object3d \<Rightarrow> string option \<Rightarrow> 'w foundation_scene \<Rightarrow> string \<times> 'w foundation_scene" where
  "addObject object ident s =
     (let objectId = resolve_id ident object
      in (objectId,
          s\<lparr>scene_children := scene_add object (scene_children s),
            managedObjects := AList.update objectId object (managedObjects s),
            console := console s @ [''Object added with ID '' @ objectId]\<rparr>))"

definition removeObject ::
  "string \<Rightarrow> 'w foundation_scene \<Rightarrow> bool \<times> 'w foundation_scene" where
  "removeObject ident s =
     (case map_of (managedObjects s) ident of
        Some object \<Rightarrow>
          (True,
           s\<lparr>scene_children := scene_remove object (scene_children s),
             managedObjects := AList.delete ident (managedObjects s),
             console := console s @ [''Object removed ID : '' @ ident]\<rparr>)
      | None \<Rightarrow> (False, s))"

subsection \<open>Animation registry\<close>

definition addAnimation ::
  "string \<Rightarrow> 'w animation_fn \<Rightarrow> 'w foundation_scene \<Rightarrow> 'w foundation_scene" where
  "addAnimation ident animationFn s =
     s\<lparr>animatedObjects := AList.update ident animationFn (animatedObjects s)\<rparr>"

definition removeAnimation :: "string \<Rightarrow> 'w foundation_scene \<Rightarrow> 'w foundation_scene" where
  "removeAnimation ident s =
     s\<lparr>animatedObjects := AList.delete ident (animatedObjects s)\<rparr>"

subsection \<open>The frame loop\<close>

text \<open>
  One run of the closure \<^verbatim>\<open>animate\<close>: it requests the next frame and keeps the handle,
  reads the clock (\<open>deltaTime\<close>, given by the host), calls every registered callback in
  the order of the \<^verbatim>\<open>Map\<close>, and renders.
\<close>

definition animate :: "real \<Rightarrow> 'w foundation_scene \<Rightarrow> 'w foundation_scene" where
  "animate deltaTime s =
     s\<lparr>animationId := Some (next_handle s),
       frame_requests := frame_requests s @ [next_handle s],
       next_handle := Suc (next_handle s),
       world := foldl (\<lambda>w p. snd p deltaTime w) (world s) (animatedObjects s),
       render_count := Suc (render_count s)\<rparr>"

definition startAnimation :: "real \<Rightarrow> 'w foundation_scene \<Rightarrow> 'w foundation_scene" where
  "startAnimation deltaTime s =
     (if animationId s \<noteq> None then s
      else
        let s1 = animate deltaTime s
        in s1\<lparr>console := console s1 @ [''Animation started'']\<rparr>)"

definition stopAnimation :: "'w foundation_scene \<Rightarrow> 'w foundation_scene" where
  "stopAnimation s =
     (case animationId s of
        Some h \<Rightarrow>
          s\<lparr>frame_requests := removeAll h (frame_requests s),
            animationId := None,
            console := console s @ [''animation stopped'']\<rparr>
      | None \<Rightarrow> s)"

subsection \<open>Disposal\<close>

definition dispose :: "'w foundation_scene \<Rightarrow> 'w foundation_scene" where
  "dispose s =
     (if isDisposed s then s
      else
        let s1 = stopAnimation s;
            s2 = s1\<lparr>scene_children :=
                     foldl (\<lambda>cs obj. scene_remove obj cs) (scene_children s1)
                       (map snd (managedObjects s1))\<rparr>;
            s3 = s2\<lparr>managedObjects := []\<rparr>;
            s4 = s3\<lparr>renderer_disposed := True\<rparr>;
            s5 = (if canvas_mounted s4 then s4\<lparr>canvas_mounted := False\<rparr> else s4);
            s6 = (if resizeHandler s5 then s5\<lparr>resize_listening := False\<rparr> else s5)
        in s6\<lparr>isDisposed := True,
               console := console s6 @ [''FoundationScene disposed successfully'']\<rparr>)"

section \<open>The resource factory: camera construction\<close>

text \<open>
  \<^verbatim>\<open>THREE.Vector3\<close> objects are mutable and shared by reference, so they live in a
  store: an address is an index into the list of allocated vectors, and allocation
  appends.
\<close>

datatype vector3 = Vector3 real real real

type_synonym addr = nat

type_synonym heap = "vector3 list"

datatype js_error = Error string | TypeError string

text \<open>
  The arguments of the two camera constructors as the library stores them:
  \<open>PerspectiveCamera fov aspect near far\<close> and
  \<open>OrthographicCamera left right top bottom near far\<close>.
\<close>

datatype projection =
    PerspectiveCamera real real real real
  | OrthographicCamera real real real real real real

text \<open>
  The rotation of a camera: the one it is constructed with, or the one
  \<^verbatim>\<open>lookAt\<close> computed for a camera standing at the first point and facing the second.
\<close>

datatype orientation = Unrotated | LookAt vector3 vector3

record camera =
  projection :: projection
  camera_position :: addr
  orientation :: orientation

text \<open>The interface \<^verbatim>\<open>CameraConfig\<close>; its field \<^verbatim>\<open>type\<close> is a string at run time.\<close>

record camera_config =
  camera_type :: string
  fov :: "real option"
  aspect :: "real option"
  near :: real
  far :: real
  position :: addr
  target :: "addr option"

text \<open>
  \<^verbatim>\<open>new THREE.PerspectiveCamera(fov, aspect, near, far)\<close>: an argument that is
  \<^verbatim>\<open>undefined\<close> takes the constructor's default, 50 for \<^verbatim>\<open>fov\<close> and 1 for
  \<^verbatim>\<open>aspect\<close>.
\<close>

definition new_PerspectiveCamera ::
  "real option \<Rightarrow> real option \<Rightarrow> real \<Rightarrow> real \<Rightarrow> projection" where
  "new_PerspectiveCamera f a n fr =
     PerspectiveCamera (case f of None \<Rightarrow> 50 | Some v \<Rightarrow> v)
       (case a of None \<Rightarrow> 1 | Some v \<Rightarrow> v) n fr"

text \<open>
  \<^verbatim>\<open>createCamera\<close>. The constructor allocates the camera's own position vector;
  \<^verbatim>\<open>position.copy\<close> writes the three coordinates of the configured vector into it;
  \<^verbatim>\<open>lookAt\<close> runs only when a target is present. A reference that names no vector of
  the store cannot be copied from: the call fails as a read of \<^verbatim>\<open>undefined\<close> does.
\<close>

definition createCamera :: "heap \<Rightarrow> camera_config \<Rightarrow> js_error + (camera \<times> heap)" where
  "createCamera h config =
     (let proj =
            (if camera_type config = ''perspective''
             then new_PerspectiveCamera (fov config) (aspect config) (near config) (far config)
             else OrthographicCamera (- 1) 1 1 (- 1) (near config) (far config));
          p = length h;
          h1 = h @ [Vector3 0 0 0]
      in if position config < length h then
           let h2 = h1[p := h1 ! position config];
               cam = \<lparr>projection = proj, camera_position = p, orientation = Unrotated\<rparr>
           in (case target config of
                 None \<Rightarrow> Inr (cam, h2)
               | Some t \<Rightarrow>
                   if t < length h
                   then Inr (cam\<lparr>orientation := LookAt (h2 ! p) (h2 ! t)\<rparr>, h2)
                   else Inl (TypeError ''Cannot read properties of undefined''))
         else Inl (TypeError ''Cannot read properties of undefined''))"

section \<open>The geometry and material factory (class TypedGeometryFactory)\<close>

text \<open>
  A configuration object at run time maps property names to values; \<open>a ?? d\<close> takes
  \<open>d\<close> when \<open>a\<close> is \<^verbatim>\<open>undefined\<close> (the property is absent) or \<^verbatim>\<open>null\<close>.
\<close>

datatype js_value = JNum real | JBool bool | JStr string | JRef nat | JNull

type_synonym js_object = "string \<Rightarrow> js_value option"

definition nullish :: "js_value option \<Rightarrow> js_value \<Rightarrow> js_value" where
  "nullish a d = (case a of None \<Rightarrow> d | Some JNull \<Rightarrow> d | Some v \<Rightarrow> v)"

datatype geometry =
    BoxGeometry js_value js_value js_value
  | SphereGeometry js_value js_value js_value
  | ConeGeometry js_value js_value js_value
  | CylinderGeometry js_value js_value js_value js_value
  | TorusGeometry js_value js_value js_value js_value
  | PlaneGeometry js_value js_value

text \<open>
  The materials, with the properties the factory passes, in the order of the source:
  basic (color, wireframe), lambert (color, emissive), phong (color, specular,
  shininess), standard (color, roughness, metalness).
\<close>

datatype material =
    MeshBasicMaterial js_value js_value
  | MeshLambertMaterial js_value js_value
  | MeshPhongMaterial js_value js_value js_value
  | MeshStandardMaterial js_value js_value js_value

text \<open>The parameter \<^verbatim>\<open>config\<close> defaults to the empty object when it is omitted.\<close>

definition default_config :: "js_object option \<Rightarrow> js_object" where
  "default_config config = (case config of None \<Rightarrow> (\<lambda>k. None) | Some c \<Rightarrow> c)"

definition createGeometry :: "string \<Rightarrow> js_object option \<Rightarrow> js_error + geometry" where
  "createGeometry type config =
     (let c = default_config config
      in if type = ''box'' then
           Inr (BoxGeometry (nullish (c ''width'') (JNum 1))
                  (nullish (c ''height'') (JNum 1))
                  (nullish (c ''depth'') (JNum 1)))
         else if type = ''sphere'' then
           Inr (SphereGeometry (nullish (c ''radius'') (JNum 1))
                  (nullish (c ''widthSegments'') (JNum 32))
                  (nullish (c ''heightSegments'') (JNum 16)))
         else if type = ''cone'' then
           Inr (ConeGeometry (nullish (c ''radius'') (JNum 1))
                  (nullish (c ''height'') (JNum 1))
                  (nullish (c ''radialSegments'') (JNum 8)))
         else if type = ''cylinder'' then
           Inr (CylinderGeometry (nullish (c ''radiusTop'') (JNum 1))
                  (nullish (c ''radiusBottom'') (JNum 1))
                  (nullish (c ''height'') (JNum 1))
                  (nullish (c ''radialSegments'') (JNum 8)))
         else if type = ''torus'' then
           Inr (TorusGeometry (nullish (c ''radius'') (JNum 1))
                  (nullish (c ''tube'') (JNum (4 / 10)))
                  (nullish (c ''radialSegments'') (JNum 8))
                  (nullish (c ''tublarSegments'') (JNum 8)))
         else if type = ''plane'' then
           Inr (PlaneGeometry (nullish (c ''width'') (JNum 1))
                  (nullish (c ''height'') (JNum 1)))
         else Inl (Error (''Unsupported geometry type: '' @ type)))"

definition createMaterial :: "string \<Rightarrow> js_object option \<Rightarrow> js_error + material" where
  "createMaterial type config =
     (let c = default_config config
      in if type = ''basic'' then
           Inr (MeshBasicMaterial (nullish (c ''color'') (JNum 16777215))
                  (nullish (c ''wireframe'') (JBool False)))
         else if type = ''lambert'' then
           Inr (MeshLambertMaterial (nullish (c ''color'') (JNum 16777215))
                  (nullish (c ''emssive'') (JNum 0)))
         else if type = ''phong'' then
           Inr (MeshPhongMaterial (nullish (c ''color'') (JNum 16777215))
                  (nullish (c ''specular'') (JNum 1118481))
                  (nullish (c ''shininess'') (JNum 30)))
         else if type = ''standard'' then
           Inr (MeshStandardMaterial (nullish (c ''color'') (JNum 16777215))
                  (nullish (c ''roughness'') (JNum (5 / 10)))
                  (nullish (c ''metalness'') (JNum (5 / 10))))
         else Inl (Error (''Unsupported material type : '' @ type)))"

section \<open>Observations on a manager state\<close>

text \<open>The number of managed objects, \<^verbatim>\<open>managedObjects.size\<close>.\<close>

definition managed_count :: "'w foundation_scene \<Rightarrow> nat" where
  "managed_count s = length (managedObjects s)"

text \<open>Every node that the registry holds is a child of the scene.\<close>

definition registry_attached :: "'w foundation_scene \<Rightarrow> bool" where
  "registry_attached s =
     list_all (\<lambda>p. snd p \<in> set (scene_children s)) (managedObjects s)"

section \<open>Auxiliary facts\<close>

lemma map_of_delete_same: "map_of (AList.delete k al) k = None"
  by (simp add: delete_conv')

lemma map_of_update_same: "map_of (AList.update k v al) k = Some v"
  by (simp add: update_conv')

lemma set_update_subset: "p \<in> set (AList.update k v al) \<Longrightarrow> p = (k, v) \<or> p \<in> set al"
  by (induction al) (auto split: if_splits)

lemma delete_update_fresh:
  "k \<notin> fst ` set al \<Longrightarrow> AList.delete k (AList.update k v al) = al"
  by (simp add: delete_update_same)

lemma in_set_remove1_other: "a \<noteq> b \<Longrightarrow> a \<in> set (remove1 b xs) \<longleftrightarrow> a \<in> set xs"
  by (induction xs) auto

lemma in_scene_add: "n \<in> set (scene_add object cs) \<longleftrightarrow> n = object \<or> n \<in> set cs"
  by (cases "n = object") (auto simp: scene_add_def in_set_remove1_other)

lemma remove1_scene_add_fresh:
  "object \<notin> set cs \<Longrightarrow> scene_remove object (scene_add object cs) = cs"
  by (simp add: scene_remove_def scene_add_def remove1_append remove1_idem)

lemma addObject_fst: "fst (addObject node ident s) = resolve_id ident node"
  by (simp add: addObject_def Let_def)

lemma addObject_scene_children:
  "scene_children (snd (addObject node ident s)) = scene_add node (scene_children s)"
  by (simp add: addObject_def Let_def)

lemma addObject_managedObjects:
  "managedObjects (snd (addObject node ident s))
     = AList.update (resolve_id ident node) node (managedObjects s)"
  by (simp add: addObject_def Let_def)

lemmas addObject_sel = addObject_fst addObject_scene_children addObject_managedObjects

lemma stopAnimation_animatedObjects: "animatedObjects (stopAnimation s) = animatedObjects s"
  by (simp add: stopAnimation_def split: option.splits)

lemma dispose_animatedObjects: "animatedObjects (dispose s) = animatedObjects s"
  by (simp add: dispose_def Let_def stopAnimation_animatedObjects)

lemma dispose_live:
  "\<not> isDisposed s \<Longrightarrow>
     isDisposed (dispose s) \<and> animationId (dispose s) = None
     \<and> managedObjects (dispose s) = [] \<and> next_handle (dispose s) = next_handle s"
  by (simp add: dispose_def Let_def stopAnimation_def split: option.splits)

section \<open>Properties of the object registry\<close>

text \<open>
  C8. Removing an identifier that the registry does not hold (never inserted, or already
  removed) returns false, raises nothing, and leaves the whole manager state as it was.
\<close>

theorem removeObject_unknown_id:
  "(map_of (managedObjects s) ident = None \<longrightarrow> removeObject ident s = (False, s))
   \<and> removeObject ident (snd (removeObject ident s)) = (False, snd (removeObject ident s))"
  by (auto simp: removeObject_def map_of_delete_same split: option.splits)

theorem removeObject_unknown_id_witness:
  "map_of (managedObjects (new_FoundationScene True (0::nat))) ''ghost'' = None
   \<and> removeObject ''ghost'' (new_FoundationScene True (0::nat))
       = (False, new_FoundationScene True 0)"
  using removeObject_unknown_id [of "new_FoundationScene True (0::nat)" "''ghost''"]
  by (simp add: new_FoundationScene_def initialize_def setupResizeHandler_def)

text \<open>
  C9. The empty string as identifier behaves as an omitted identifier: the node is
  registered under its \<^verbatim>\<open>uuid\<close> and that \<^verbatim>\<open>uuid\<close> is returned. When the
  \<^verbatim>\<open>uuid\<close> is itself not empty, the returned identifier is not the empty string and
  the registry's entry for the empty string is untouched.
\<close>

theorem addObject_empty_id:
  "addObject node (Some '''') s = addObject node None s
   \<and> fst (addObject node (Some '''') s) = uuid node
   \<and> map_of (managedObjects (snd (addObject node (Some '''') s))) (uuid node) = Some node
   \<and> (uuid node \<noteq> '''' \<longrightarrow>
        fst (addObject node (Some '''') s) \<noteq> ''''
        \<and> map_of (managedObjects (snd (addObject node (Some '''') s))) ''''
            = map_of (managedObjects s) '''')"
  by (simp add: addObject_def Let_def resolve_id_def update_conv')

theorem addObject_empty_id_witness:
  "uuid \<lparr>ref = 1, uuid = ''u1''\<rparr> \<noteq> ''''
   \<and> addObject \<lparr>ref = 1, uuid = ''u1''\<rparr> (Some '''') (new_FoundationScene True (0::nat))
       = addObject \<lparr>ref = 1, uuid = ''u1''\<rparr> None (new_FoundationScene True 0)
   \<and> fst (addObject \<lparr>ref = 1, uuid = ''u1''\<rparr> (Some '''') (new_FoundationScene True (0::nat)))
       = ''u1''
   \<and> managedObjects (snd (addObject \<lparr>ref = 1, uuid = ''u1''\<rparr> (Some '''')
         (new_FoundationScene True (0::nat)))) = [(''u1'', \<lparr>ref = 1, uuid = ''u1''\<rparr>)]"
  using addObject_empty_id [of "\<lparr>ref = 1, uuid = ''u1''\<rparr>" "new_FoundationScene True (0::nat)"]
  by (simp add: new_FoundationScene_def initialize_def setupResizeHandler_def
      addObject_def Let_def resolve_id_def)

text \<open>
  C3. Adding a second, different node under the identifier \<^verbatim>\<open>"cube"\<close> overwrites the
  registry entry and detaches nothing: the registry maps \<^verbatim>\<open>"cube"\<close> to the second node
  and both nodes are children of the scene.
\<close>

theorem addObject_reused_id:
  assumes "node1 \<noteq> node2"
  shows "map_of (managedObjects (snd (addObject node2 (Some ''cube'')
            (snd (addObject node1 (Some ''cube'') s))))) ''cube'' = Some node2
     \<and> node1 \<in> set (scene_children (snd (addObject node2 (Some ''cube'')
            (snd (addObject node1 (Some ''cube'') s)))))
     \<and> node2 \<in> set (scene_children (snd (addObject node2 (Some ''cube'')
            (snd (addObject node1 (Some ''cube'') s)))))"
  using assms
  by (simp add: addObject_sel resolve_id_def in_scene_add map_of_update_same)

theorem addObject_reused_id_witness:
  "\<lparr>ref = 1, uuid = ''u1''\<rparr> \<noteq> \<lparr>ref = 2, uuid = ''u2''\<rparr>
   \<and> map_of (managedObjects (snd (addObject \<lparr>ref = 2, uuid = ''u2''\<rparr> (Some ''cube'')
        (snd (addObject \<lparr>ref = 1, uuid = ''u1''\<rparr> (Some ''cube'')
           (new_FoundationScene True (0::nat))))))) ''cube''
       = Some \<lparr>ref = 2, uuid = ''u2''\<rparr>
   \<and> scene_children (snd (addObject \<lparr>ref = 2, uuid = ''u2''\<rparr> (Some ''cube'')
        (snd (addObject \<lparr>ref = 1, uuid = ''u1''\<rparr> (Some ''cube'')
           (new_FoundationScene True (0::nat))))))
       = [\<lparr>ref = 1, uuid = ''u1''\<rparr>, \<lparr>ref = 2, uuid = ''u2''\<rparr>]"
  using addObject_reused_id [of "\<lparr>ref = 1, uuid = ''u1''\<rparr>" "\<lparr>ref = 2, uuid = ''u2''\<rparr>"
      "new_FoundationScene True (0::nat)"]
  by (simp add: new_FoundationScene_def initialize_def setupResizeHandler_def
      addObject_def Let_def resolve_id_def scene_add_def)

text \<open>
  C6 does not hold in every state. A node that was already added under its \<^verbatim>\<open>uuid\<close>
  is added once more and removed: the removal returns true, but the registry and the
  scene each hold one node before the two calls and none after them.
\<close>

theorem add_then_remove_counterexample:
  "managed_count (snd (addObject \<lparr>ref = 1, uuid = ''u1''\<rparr> None
       (new_FoundationScene True (0::nat)))) = 1
   \<and> length (scene_children (snd (addObject \<lparr>ref = 1, uuid = ''u1''\<rparr> None
       (new_FoundationScene True (0::nat))))) = 1
   \<and> fst (addObject \<lparr>ref = 1, uuid = ''u1''\<rparr> None
       (snd (addObject \<lparr>ref = 1, uuid = ''u1''\<rparr> None (new_FoundationScene True (0::nat)))))
       = ''u1''
   \<and> fst (removeObject ''u1''
       (snd (addObject \<lparr>ref = 1, uuid = ''u1''\<rparr> None
          (snd (addObject \<lparr>ref = 1, uuid = ''u1''\<rparr> None
             (new_FoundationScene True (0::nat)))))))
   \<and> managed_count (snd (removeObject ''u1''
       (snd (addObject \<lparr>ref = 1, uuid = ''u1''\<rparr> None
          (snd (addObject \<lparr>ref = 1, uuid = ''u1''\<rparr> None
             (new_FoundationScene True (0::nat)))))))) = 0
   \<and> length (scene_children (snd (removeObject ''u1''
       (snd (addObject \<lparr>ref = 1, uuid = ''u1''\<rparr> None
          (snd (addObject \<lparr>ref = 1, uuid = ''u1''\<rparr> None
             (new_FoundationScene True (0::nat))))))))) = 0"
  by (simp add: managed_count_def new_FoundationScene_def initialize_def
      setupResizeHandler_def addObject_def Let_def removeObject_def resolve_id_def
      scene_add_def scene_remove_def)

text \<open>
  C6, amended. \<^verbatim>\<open>addObject\<close> followed at once by \<^verbatim>\<open>removeObject\<close> of the returned
  identifier always yields true. The registry, and with it the managed-object count, is
  back at its value before the two calls when the resolved identifier was not registered
  before; the children of the scene are back at their value when the node was not
  attached before.
\<close>

theorem add_then_remove:
  "fst (removeObject (fst (addObject node ident s)) (snd (addObject node ident s))) = True
   \<and> (resolve_id ident node \<notin> fst ` set (managedObjects s) \<longrightarrow>
        managedObjects (snd (removeObject (fst (addObject node ident s))
            (snd (addObject node ident s)))) = managedObjects s
        \<and> managed_count (snd (removeObject (fst (addObject node ident s))
            (snd (addObject node ident s)))) = managed_count s)
   \<and> (node \<notin> set (scene_children s) \<longrightarrow>
        scene_children (snd (removeObject (fst (addObject node ident s))
            (snd (addObject node ident s)))) = scene_children s)"
  by (simp add: addObject_def removeObject_def Let_def map_of_update_same managed_count_def
      delete_update_fresh remove1_scene_add_fresh)

theorem add_then_remove_witness:
  "resolve_id None \<lparr>ref = 1, uuid = ''u1''\<rparr>
       \<notin> fst ` set (managedObjects (new_FoundationScene True (0::nat)))
   \<and> \<lparr>ref = 1, uuid = ''u1''\<rparr> \<notin> set (scene_children (new_FoundationScene True (0::nat)))
   \<and> fst (removeObject ''u1''
          (snd (addObject \<lparr>ref = 1, uuid = ''u1''\<rparr> None (new_FoundationScene True (0::nat)))))
   \<and> managed_count (snd (removeObject ''u1''
          (snd (addObject \<lparr>ref = 1, uuid = ''u1''\<rparr> None (new_FoundationScene True (0::nat))))))
       = 0
   \<and> scene_children (snd (removeObject ''u1''
          (snd (addObject \<lparr>ref = 1, uuid = ''u1''\<rparr> None (new_FoundationScene True (0::nat))))))
       = []"
  using add_then_remove [of "\<lparr>ref = 1, uuid = ''u1''\<rparr>" None "new_FoundationScene True (0::nat)"]
  by (simp add: managed_count_def new_FoundationScene_def initialize_def setupResizeHandler_def
      addObject_def Let_def resolve_id_def)

section \<open>Properties of the frame loop\<close>

text \<open>
  C7. When a frame-loop handle already exists, \<^verbatim>\<open>startAnimation\<close> changes nothing. Two
  calls in a row therefore equal one call, and from a stopped manager they leave exactly
  one frame request more than before, one stored handle and one rendered frame.
\<close>

theorem startAnimation_twice:
  "(animationId s \<noteq> None \<longrightarrow> startAnimation dt s = s)
   \<and> startAnimation dt' (startAnimation dt s) = startAnimation dt s
   \<and> (animationId s = None \<longrightarrow>
        animationId (startAnimation dt' (startAnimation dt s)) = Some (next_handle s)
        \<and> frame_requests (startAnimation dt' (startAnimation dt s))
            = frame_requests s @ [next_handle s]
        \<and> render_count (startAnimation dt' (startAnimation dt s)) = Suc (render_count s))"
  by (simp add: startAnimation_def animate_def Let_def)

theorem startAnimation_twice_witness:
  "animationId (new_FoundationScene True (0::nat)) = None
   \<and> frame_requests (startAnimation 2 (startAnimation 1 (new_FoundationScene True (0::nat))))
       = [1]
   \<and> animationId (startAnimation 1 (new_FoundationScene True (0::nat))) \<noteq> None
   \<and> startAnimation 2 (startAnimation 1 (new_FoundationScene True (0::nat)))
       = startAnimation 1 (new_FoundationScene True 0)"
  using startAnimation_twice [of "new_FoundationScene True (0::nat)" 1 2]
    startAnimation_twice [of "startAnimation 1 (new_FoundationScene True (0::nat))" 2 2]
  by (simp add: new_FoundationScene_def initialize_def setupResizeHandler_def
      startAnimation_def animate_def Let_def)

section \<open>Properties of disposal\<close>

text \<open>
  C1 does not hold. On the manager that was constructed and disposed, no frame loop is
  active and the scene and the registry are empty; \<^verbatim>\<open>startAnimation\<close> then stores the
  handle 1, and \<^verbatim>\<open>addObject\<close> attaches the node and registers it.
\<close>

theorem calls_after_dispose_counterexample:
  "isDisposed (dispose (new_FoundationScene True (0::nat)))
   \<and> animationId (dispose (new_FoundationScene True (0::nat))) = None
   \<and> animationId (startAnimation 0 (dispose (new_FoundationScene True (0::nat)))) = Some 1
   \<and> scene_children (dispose (new_FoundationScene True (0::nat))) = []
   \<and> scene_children (snd (addObject \<lparr>ref = 1, uuid = ''u1''\<rparr> None
        (dispose (new_FoundationScene True (0::nat))))) = [\<lparr>ref = 1, uuid = ''u1''\<rparr>]
   \<and> managedObjects (dispose (new_FoundationScene True (0::nat))) = []
   \<and> managedObjects (snd (addObject \<lparr>ref = 1, uuid = ''u1''\<rparr> None
        (dispose (new_FoundationScene True (0::nat))))) = [(''u1'', \<lparr>ref = 1, uuid = ''u1''\<rparr>)]"
  by (simp add: new_FoundationScene_def initialize_def setupResizeHandler_def dispose_def
      stopAnimation_def startAnimation_def animate_def addObject_def Let_def resolve_id_def
      scene_add_def)

text \<open>
  C1, amended. Only \<^verbatim>\<open>dispose\<close> reads the disposed flag. On a disposed manager a further
  \<^verbatim>\<open>dispose\<close> changes nothing, and \<^verbatim>\<open>stopAnimation\<close> changes nothing while no loop is
  active; \<^verbatim>\<open>startAnimation\<close> and \<^verbatim>\<open>addObject\<close> keep the flag and work as on a live
  manager: with no loop active \<^verbatim>\<open>startAnimation\<close> requests a frame and stores its
  handle, and \<^verbatim>\<open>addObject\<close> attaches the node and registers it under the identifier
  it returns. Disposing a live manager sets the flag and leaves no loop active, and a
  \<^verbatim>\<open>startAnimation\<close> after it starts a loop again.
\<close>

theorem calls_after_dispose:
  "(isDisposed s \<longrightarrow>
      dispose s = s
      \<and> isDisposed (startAnimation dt s)
      \<and> isDisposed (snd (addObject node ident s))
      \<and> (animationId s = None \<longrightarrow>
           stopAnimation s = s
           \<and> animationId (startAnimation dt s) = Some (next_handle s)
           \<and> frame_requests (startAnimation dt s) = frame_requests s @ [next_handle s])
      \<and> node \<in> set (scene_children (snd (addObject node ident s)))
      \<and> map_of (managedObjects (snd (addObject node ident s))) (fst (addObject node ident s))
          = Some node)
   \<and> (\<not> isDisposed s \<longrightarrow>
        isDisposed (dispose s) \<and> animationId (dispose s) = None
        \<and> animationId (startAnimation dt (dispose s)) = Some (next_handle s))"
proof -
  have live: "\<not> isDisposed s \<longrightarrow>
        isDisposed (dispose s) \<and> animationId (dispose s) = None
        \<and> animationId (startAnimation dt (dispose s)) = Some (next_handle s)"
    by (simp add: dispose_live startAnimation_def animate_def Let_def)
  have start: "isDisposed (startAnimation dt s) = isDisposed s"
    by (simp add: startAnimation_def animate_def Let_def)
  have add: "isDisposed (snd (addObject node ident s)) = isDisposed s"
    by (simp add: addObject_def Let_def)
  have loop: "animationId s = None \<longrightarrow>
           stopAnimation s = s
           \<and> animationId (startAnimation dt s) = Some (next_handle s)
           \<and> frame_requests (startAnimation dt s) = frame_requests s @ [next_handle s]"
    by (simp add: stopAnimation_def startAnimation_def animate_def Let_def)
  have reg: "node \<in> set (scene_children (snd (addObject node ident s)))
      \<and> map_of (managedObjects (snd (addObject node ident s))) (fst (addObject node ident s))
          = Some node"
    by (simp add: addObject_sel in_scene_add map_of_update_same)
  have again: "isDisposed s \<longrightarrow> dispose s = s"
    by (simp add: dispose_def)
  from live start add loop reg again show ?thesis by blast
qed

theorem calls_after_dispose_witness:
  "isDisposed (dispose (new_FoundationScene True (0::nat)))
   \<and> animationId (dispose (new_FoundationScene True (0::nat))) = None
   \<and> dispose (dispose (new_FoundationScene True (0::nat))) = dispose (new_FoundationScene True 0)
   \<and> frame_requests (startAnimation 0 (dispose (new_FoundationScene True (0::nat)))) = [1]
   \<and> \<lparr>ref = 1, uuid = ''u1''\<rparr> \<in> set (scene_children (snd (addObject \<lparr>ref = 1, uuid = ''u1''\<rparr>
        None (dispose (new_FoundationScene True (0::nat))))))"
  using calls_after_dispose [of "dispose (new_FoundationScene True (0::nat))" 0
      "\<lparr>ref = 1, uuid = ''u1''\<rparr>" None]
  by (simp add: new_FoundationScene_def initialize_def setupResizeHandler_def dispose_def
      stopAnimation_def Let_def)

text \<open>
  C2 against the code. \<^verbatim>\<open>dispose\<close> clears the object registry but never touches
  \<^verbatim>\<open>animatedObjects\<close>: a callback registered as \<^verbatim>\<open>"spin"\<close> is still registered after
  disposal.
\<close>

theorem dispose_keeps_animation_callback:
  "map fst (animatedObjects (dispose (addAnimation ''spin'' (\<lambda>dt angle. angle + dt)
      (new_FoundationScene True (0::real))))) = [''spin'']"
  by (simp add: dispose_animatedObjects addAnimation_def new_FoundationScene_def
      initialize_def setupResizeHandler_def)

section \<open>The registry and the scene graph\<close>

lemma registry_attached_iff:
  "registry_attached s \<longleftrightarrow> (\<forall>p \<in> set (managedObjects s). snd p \<in> set (scene_children s))"
  by (simp add: registry_attached_def list_all_iff)

lemma registry_attached_addObject:
  "registry_attached s \<Longrightarrow> registry_attached (snd (addObject node ident s))"
  unfolding registry_attached_iff addObject_sel
  by (auto simp: in_scene_add dest: set_update_subset)

lemma registry_attached_removeObject:
  assumes "registry_attached s"
    and "\<forall>p \<in> set (managedObjects s).
           fst p \<noteq> ident \<longrightarrow> map_of (managedObjects s) ident \<noteq> Some (snd p)"
  shows "registry_attached (snd (removeObject ident s))"
proof (cases "map_of (managedObjects s) ident")
  case None
  with assms(1) show ?thesis by (simp add: removeObject_def)
next
  case (Some object)
  have "snd p \<in> set (scene_remove object (scene_children s))"
    if "p \<in> set (AList.delete ident (managedObjects s))" for p
  proof -
    from that have mem: "p \<in> set (managedObjects s)" and key: "fst p \<noteq> ident"
      by (auto simp: AList.delete_eq)
    from assms(1) mem have "snd p \<in> set (scene_children s)"
      by (simp add: registry_attached_iff)
    moreover from assms(2) mem key Some have "snd p \<noteq> object" by auto
    ultimately show ?thesis by (simp add: scene_remove_def in_set_remove1_other)
  qed
  with Some show ?thesis
    by (simp add: removeObject_def registry_attached_iff)
qed

lemma registry_attached_dispose: "registry_attached s \<Longrightarrow> registry_attached (dispose s)"
  by (cases "isDisposed s") (simp_all add: dispose_def Let_def registry_attached_def)

lemma registry_attached_animation:
  "registry_attached (addAnimation a f s) = registry_attached s"
  "registry_attached (removeAnimation a s) = registry_attached s"
  "registry_attached (startAnimation dt s) = registry_attached s"
  "registry_attached (stopAnimation s) = registry_attached s"
  by (simp_all add: registry_attached_def addAnimation_def removeAnimation_def
      startAnimation_def animate_def stopAnimation_def Let_def split: option.splits)

text \<open>
  C10 does not hold for \<^verbatim>\<open>removeObject\<close>. One node is registered under \<^verbatim>\<open>"a"\<close> and
  under \<^verbatim>\<open>"b"\<close>; it is attached, so the invariant holds. Removing \<^verbatim>\<open>"a"\<close> detaches the
  node while \<^verbatim>\<open>"b"\<close> still maps to it.
\<close>

theorem registry_attached_counterexample:
  "registry_attached (snd (addObject \<lparr>ref = 1, uuid = ''u1''\<rparr> (Some ''b'')
       (snd (addObject \<lparr>ref = 1, uuid = ''u1''\<rparr> (Some ''a'') (new_FoundationScene True (0::nat))))))
   \<and> \<not> registry_attached (snd (removeObject ''a''
       (snd (addObject \<lparr>ref = 1, uuid = ''u1''\<rparr> (Some ''b'')
       (snd (addObject \<lparr>ref = 1, uuid = ''u1''\<rparr> (Some ''a'') (new_FoundationScene True (0::nat))))))))"
  by (simp add: registry_attached_def new_FoundationScene_def initialize_def
      setupResizeHandler_def addObject_def removeObject_def Let_def resolve_id_def
      scene_add_def scene_remove_def)

text \<open>
  C10, amended. Every registered node is attached to the scene in the state the
  constructor returns, and this is preserved by \<^verbatim>\<open>addObject\<close>, \<^verbatim>\<open>addAnimation\<close>,
  \<^verbatim>\<open>removeAnimation\<close>, \<^verbatim>\<open>startAnimation\<close>, \<^verbatim>\<open>stopAnimation\<close> and \<^verbatim>\<open>dispose\<close>, and by
  \<^verbatim>\<open>removeObject\<close> of an identifier whose node is registered under no other identifier.
\<close>

theorem registry_attached_preserved:
  "registry_attached (new_FoundationScene autoResize w)
   \<and> (registry_attached s \<longrightarrow>
        registry_attached (snd (addObject node ident s))
        \<and> registry_attached (addAnimation a f s)
        \<and> registry_attached (removeAnimation a s)
        \<and> registry_attached (startAnimation dt s)
        \<and> registry_attached (stopAnimation s)
        \<and> registry_attached (dispose s)
        \<and> ((\<forall>p \<in> set (managedObjects s).
               fst p \<noteq> k \<longrightarrow> map_of (managedObjects s) k \<noteq> Some (snd p))
             \<longrightarrow> registry_attached (snd (removeObject k s))))"
proof -
  have "registry_attached (new_FoundationScene autoResize w)"
    by (simp add: registry_attached_def new_FoundationScene_def initialize_def
        setupResizeHandler_def Let_def)
  then show ?thesis
    by (simp add: registry_attached_addObject registry_attached_animation
        registry_attached_dispose registry_attached_removeObject)
qed

theorem registry_attached_preserved_witness:
  "registry_attached (snd (addObject \<lparr>ref = 1, uuid = ''u1''\<rparr> (Some ''a'')
       (new_FoundationScene True (0::nat))))
   \<and> list_all (\<lambda>p. fst p = ''a'') (managedObjects (snd (addObject \<lparr>ref = 1, uuid = ''u1''\<rparr>
       (Some ''a'') (new_FoundationScene True (0::nat)))))
   \<and> registry_attached (snd (removeObject ''a'' (snd (addObject \<lparr>ref = 1, uuid = ''u1''\<rparr>
       (Some ''a'') (new_FoundationScene True (0::nat))))))
   \<and> registry_attached (snd (addObject \<lparr>ref = 2, uuid = ''u2''\<rparr> None
       (snd (addObject \<lparr>ref = 1, uuid = ''u1''\<rparr> (Some ''a'')
          (new_FoundationScene True (0::nat))))))
   \<and> registry_attached (dispose (snd (addObject \<lparr>ref = 1, uuid = ''u1''\<rparr> (Some ''a'')
       (new_FoundationScene True (0::nat)))))"
  using registry_attached_preserved [of True "0::nat"
      "snd (addObject \<lparr>ref = 1, uuid = ''u1''\<rparr> (Some ''a'') (new_FoundationScene True (0::nat)))"
      "\<lparr>ref = 2, uuid = ''u2''\<rparr>" None "''x''" "\<lambda>dt w. w" 0 "''a''"]
  by (simp add: registry_attached_def new_FoundationScene_def initialize_def
      setupResizeHandler_def addObject_def Let_def resolve_id_def scene_add_def)

section \<open>Properties of the factories\<close>

text \<open>
  C4 does not hold for the camera. A configuration whose type is \<^verbatim>\<open>"fisheye"\<close> raises
  nothing: \<^verbatim>\<open>createCamera\<close> returns an orthographic camera.
\<close>

theorem unrecognized_variant_counterexample:
  "createCamera [Vector3 0 0 5]
      \<lparr>camera_type = ''fisheye'', fov = Some 75, aspect = Some (16 / 9), near = 1 / 10,
       far = 1000, position = 0, target = None\<rparr>
     = Inr (\<lparr>projection = OrthographicCamera (- 1) 1 1 (- 1) (1 / 10) 1000,
             camera_position = 1, orientation = Unrotated\<rparr>,
            [Vector3 0 0 5, Vector3 0 0 5])"
  by (simp add: createCamera_def Let_def)

text \<open>
  C4, amended. \<^verbatim>\<open>createGeometry\<close> and \<^verbatim>\<open>createMaterial\<close> fail on every type that is not
  one of their cases, with an error whose message ends in that type. \<^verbatim>\<open>createCamera\<close>
  has two branches only: every type other than \<^verbatim>\<open>"perspective"\<close> gives an orthographic
  camera, with no error.
\<close>

theorem unrecognized_variant:
  "(type \<notin> {''box'', ''sphere'', ''cone'', ''cylinder'', ''torus'', ''plane''} \<longrightarrow>
      createGeometry type config = Inl (Error (''Unsupported geometry type: '' @ type)))
   \<and> (type \<notin> {''basic'', ''lambert'', ''phong'', ''standard''} \<longrightarrow>
      createMaterial type config = Inl (Error (''Unsupported material type : '' @ type)))
   \<and> (camera_type cfg \<noteq> ''perspective'' \<and> position cfg < length h
        \<and> (\<forall>t. target cfg = Some t \<longrightarrow> t < length h) \<longrightarrow>
      (\<exists>cam h'. createCamera h cfg = Inr (cam, h')
         \<and> projection cam = OrthographicCamera (- 1) 1 1 (- 1) (near cfg) (far cfg)))"
  by (auto simp: createGeometry_def createMaterial_def createCamera_def Let_def
      split: option.splits)

theorem unrecognized_variant_witness:
  "''hexagon'' \<notin> {''box'', ''sphere'', ''cone'', ''cylinder'', ''torus'', ''plane''}
   \<and> createGeometry ''hexagon'' None = Inl (Error ''Unsupported geometry type: hexagon'')
   \<and> ''toon'' \<notin> {''basic'', ''lambert'', ''phong'', ''standard''}
   \<and> createMaterial ''toon'' None = Inl (Error ''Unsupported material type : toon'')
   \<and> projection (fst (projr (createCamera [Vector3 0 0 5]
        \<lparr>camera_type = ''fisheye'', fov = None, aspect = None, near = 1 / 10,
         far = 1000, position = 0, target = None\<rparr>)))
       = OrthographicCamera (- 1) 1 1 (- 1) (1 / 10) 1000"
  using unrecognized_variant [of "''hexagon''" None, THEN conjunct1]
    unrecognized_variant [of "''toon''" None, THEN conjunct2, THEN conjunct1]
    unrecognized_variant [of _ _ "\<lparr>camera_type = ''fisheye'', fov = None, aspect = None,
        near = 1 / 10, far = 1000, position = 0, target = None\<rparr>" "[Vector3 0 0 5]",
        THEN conjunct2, THEN conjunct2]
  by (simp add: createCamera_def Let_def)

text \<open>
  C5. For a perspective configuration that gives \<^verbatim>\<open>fov\<close> and \<^verbatim>\<open>aspect\<close>,
  \<^verbatim>\<open>createCamera\<close> returns a perspective camera with the four scalars of the
  configuration. Its position is a vector allocated by the call, so it is none of the
  vectors that existed before, the configured one among them; it holds the coordinates
  of the configured position, and a later write to the configured vector does not reach
  it. With a target the camera is rotated by \<^verbatim>\<open>lookAt\<close> from that position towards the
  target; without one it keeps the rotation it was constructed with.
\<close>

theorem createCamera_perspective:
  assumes "camera_type config = ''perspective''"
    and "fov config = Some f" and "aspect config = Some a"
    and "position config < length h"
    and "\<forall>t. target config = Some t \<longrightarrow> t < length h"
  shows "\<exists>cam h'. createCamera h config = Inr (cam, h')
     \<and> projection cam = PerspectiveCamera f a (near config) (far config)
     \<and> h' ! camera_position cam = h ! position config
     \<and> camera_position cam = length h
     \<and> camera_position cam \<noteq> position config
     \<and> length h' = Suc (length h)
     \<and> (\<forall>i < length h. h' ! i = h ! i)
     \<and> (\<forall>v. (h'[position config := v]) ! camera_position cam = h ! position config)
     \<and> (\<forall>t. target config = Some t \<longrightarrow>
           orientation cam = LookAt (h ! position config) (h ! t))
     \<and> (target config = None \<longrightarrow> orientation cam = Unrotated)"
  using assms
  by (auto simp: createCamera_def Let_def new_PerspectiveCamera_def nth_append
      split: option.splits)

theorem createCamera_perspective_witness:
  "createCamera [Vector3 0 0 5, Vector3 0 0 0]
      \<lparr>camera_type = ''perspective'', fov = Some 75, aspect = Some (16 / 9), near = 1 / 10,
       far = 1000, position = 0, target = Some 1\<rparr>
     = Inr (\<lparr>projection = PerspectiveCamera 75 (16 / 9) (1 / 10) 1000,
             camera_position = 2,
             orientation = LookAt (Vector3 0 0 5) (Vector3 0 0 0)\<rparr>,
            [Vector3 0 0 5, Vector3 0 0 0, Vector3 0 0 5])"
  using createCamera_perspective [of
      "\<lparr>camera_type = ''perspective'', fov = Some 75, aspect = Some (16 / 9), near = 1 / 10,
        far = 1000, position = 0, target = Some 1\<rparr>" 75 "16 / 9" "[Vector3 0 0 5, Vector3 0 0 0]"]
  by (simp add: createCamera_def Let_def new_PerspectiveCamera_def)

end
